theory Spec2Isabelle
  imports Main
begin

section \<open>Strings, character classes and the two string methods of the interpreter\<close>

text \<open>
  A query is a \<^typ>\<open>string\<close>: one \<^typ>\<open>char\<close> per code unit, read as its Latin-1 code
  point (the code units 0 to 255 of a JavaScript string). \<open>toLowerCase\<close>, \<open>trim\<close> and the
  classes \<open>\s\<close>, \<open>\d\<close>, \<open>\b\<close> and \<open>.\<close> are written out for that range.
\<close>

definition code :: "char \<Rightarrow> nat" where
  "code c = of_char c"

definition isUpper :: "char \<Rightarrow> bool" where
  "isUpper c = ((65 \<le> code c \<and> code c \<le> 90) \<or>
                (192 \<le> code c \<and> code c \<le> 222 \<and> code c \<noteq> 215))"

text \<open>
  Lower-casing adds 32 to the code of an upper-case letter (A to Z, and the accented
  capitals 192 to 222 but for the multiplication sign 215). Bit 5 of every such code is
  clear, so adding 32 sets that bit.
\<close>

fun lowerChar :: "char \<Rightarrow> char" where
  "lowerChar (Char b0 b1 b2 b3 b4 b5 b6 b7) =
     (if isUpper (Char b0 b1 b2 b3 b4 b5 b6 b7) then Char b0 b1 b2 b3 b4 True b6 b7
      else Char b0 b1 b2 b3 b4 b5 b6 b7)"

definition toLowerCase :: "string \<Rightarrow> string" where
  "toLowerCase s = map lowerChar s"

text \<open>White space and line terminators: tab, LF, VT, FF, CR, space, no-break space.\<close>

definition isSpace :: "char \<Rightarrow> bool" where
  "isSpace c = (code c \<in> {9, 10, 11, 12, 13, 32, 160})"

definition trim :: "string \<Rightarrow> string" where
  "trim s = rev (dropWhile isSpace (rev (dropWhile isSpace s)))"

definition isWordChar :: "char \<Rightarrow> bool" where
  "isWordChar c = ((97 \<le> code c \<and> code c \<le> 122) \<or> (65 \<le> code c \<and> code c \<le> 90) \<or>
                   (48 \<le> code c \<and> code c \<le> 57) \<or> code c = 95)"

definition isDigit :: "char \<Rightarrow> bool" where
  "isDigit c = (48 \<le> code c \<and> code c \<le> 57)"

definition isLineTerminator :: "char \<Rightarrow> bool" where
  "isLineTerminator c = (code c = 10 \<or> code c = 13)"

text \<open>\<open>s.startsWith(w)\<close>, and \<open>s.includes(w)\<close> under the name \<open>includesStr\<close>.\<close>

fun startsWith :: "string \<Rightarrow> string \<Rightarrow> bool" where
  "startsWith s [] = True"
| "startsWith [] (c # cs) = False"
| "startsWith (x # xs) (c # cs) = (x = c \<and> startsWith xs cs)"

fun includesStr :: "string \<Rightarrow> string \<Rightarrow> bool" where
  "includesStr [] w = startsWith [] w"
| "includesStr (x # xs) w = (startsWith (x # xs) w \<or> includesStr xs w)"

text \<open>\<open>xs.join(sep)\<close>.\<close>

fun join :: "string \<Rightarrow> string list \<Rightarrow> string" where
  "join sep [] = []"
| "join sep [x] = x"
| "join sep (x # y # ys) = x @ sep @ join sep (y # ys)"

section \<open>Regular expressions\<close>

text \<open>
  The fragment of JavaScript regular expressions the interpreter uses: literals, the
  classes \<open>.\<close>, \<open>\s\<close> and \<open>\d\<close>, greedy \<open>*\<close> and \<open>+\<close> on a class, \<open>\b\<close>, sequence,
  alternation, \<open>?\<close> and a capturing group. Only group 1 is ever read by the source, so
  \<open>Cap\<close> marks group 1 and every other parenthesis is plain grouping.
\<close>

datatype cls = Dot | Space | Digit

fun inCls :: "cls \<Rightarrow> char \<Rightarrow> bool" where
  "inCls Dot c = (\<not> isLineTerminator c)"
| "inCls Space c = isSpace c"
| "inCls Digit c = isDigit c"

datatype re = Str string | One cls | Star cls | Plus cls | Bound
  | Seq re re | Alt re re | Opt re | Cap re

text \<open>
  A matcher state: the character just before the position (none at the start of the
  input), the rest of the input, and what group 1 has captured so far.
\<close>

type_synonym mstate = "char option \<times> string \<times> string option"

fun lit :: "string \<Rightarrow> char option \<Rightarrow> string \<Rightarrow> (char option \<times> string) list" where
  "lit [] p s = [(p, s)]"
| "lit (c # cs) p [] = []"
| "lit (c # cs) p (x # xs) = (if c = x then lit cs (Some x) xs else [])"

text \<open>Greedy repetition of a class: the longest run first, then each shorter one.\<close>

fun star :: "cls \<Rightarrow> char option \<Rightarrow> string \<Rightarrow> (char option \<times> string) list" where
  "star k p [] = [(p, [])]"
| "star k p (x # xs) =
     (if inCls k x then star k (Some x) xs @ [(p, x # xs)] else [(p, x # xs)])"

fun wordBefore :: "char option \<Rightarrow> bool" where
  "wordBefore None = False"
| "wordBefore (Some c) = isWordChar c"

fun wordAfter :: "string \<Rightarrow> bool" where
  "wordAfter [] = False"
| "wordAfter (c # cs) = isWordChar c"

text \<open>
  All the ways a pattern matches at a position, in the order a backtracking matcher
  tries them: the head of the list is the match JavaScript reports.
\<close>

fun rmatch :: "re \<Rightarrow> mstate \<Rightarrow> mstate list" where
  "rmatch (Str w) (p, s, g) = map (\<lambda>(p', s'). (p', s', g)) (lit w p s)"
| "rmatch (One k) (p, s, g) =
     (case s of [] \<Rightarrow> [] | x # xs \<Rightarrow> if inCls k x then [(Some x, xs, g)] else [])"
| "rmatch (Star k) (p, s, g) = map (\<lambda>(p', s'). (p', s', g)) (star k p s)"
| "rmatch (Plus k) (p, s, g) =
     (case s of [] \<Rightarrow> []
      | x # xs \<Rightarrow> if inCls k x then map (\<lambda>(p', s'). (p', s', g)) (star k (Some x) xs) else [])"
| "rmatch Bound (p, s, g) = (if wordBefore p \<noteq> wordAfter s then [(p, s, g)] else [])"
| "rmatch (Seq a b) st = concat (map (rmatch b) (rmatch a st))"
| "rmatch (Alt a b) st = rmatch a st @ rmatch b st"
| "rmatch (Opt a) st = rmatch a st @ [st]"
| "rmatch (Cap a) (p, s, g) =
     map (\<lambda>(p', s', g'). (p', s', Some (take (length s - length s') s))) (rmatch a (p, s, g))"

fun seqs :: "re \<Rightarrow> re list \<Rightarrow> re" where
  "seqs r [] = r"
| "seqs r (x # xs) = Seq r (seqs x xs)"

fun alts :: "re \<Rightarrow> re list \<Rightarrow> re" where
  "alts r [] = r"
| "alts r (x # xs) = Alt r (alts x xs)"

text \<open>
  \<open>q.match(r)\<close> without the global flag: the leftmost position with a match. The result
  is \<open>None\<close> for null, and otherwise holds element 1 of the match array (\<open>None\<close> inside
  when group 1 took no part).
\<close>

fun search :: "re \<Rightarrow> char option \<Rightarrow> string \<Rightarrow> string option option" where
  "search r p [] = (case rmatch r (p, [], None) of [] \<Rightarrow> None | (_, _, g) # _ \<Rightarrow> Some g)"
| "search r p (x # xs) =
     (case rmatch r (p, x # xs, None) of [] \<Rightarrow> search r (Some x) xs | (_, _, g) # _ \<Rightarrow> Some g)"

definition exec :: "re \<Rightarrow> string \<Rightarrow> string option option" where
  "exec r q = search r None q"

definition test :: "re \<Rightarrow> string \<Rightarrow> bool" where
  "test r q = (exec r q \<noteq> None)"

section \<open>Actions and results\<close>

text \<open>
  \<open>DashboardAction\<close> is declared as one interface with a \<open>type\<close> discriminator and an
  optional field per kind. Every producer in the interpreter fills exactly the field of
  its kind and the consumer reads that field with a non-null assertion, so an action is
  the tagged value of its kind. \<open>chartType\<close> stays a string: the interpreter casts the
  text captured by a pattern to \<open>ChartType\<close> without a check.
\<close>

datatype Mode = Realtime | History

datatype LiveKey = L1h | L12h | L24h

datatype HistKey = Yesterday | Week1 | Month1

datatype DashboardAction =
    ShowOnlyParams "string list"
  | ShowAllParams
  | HideParam string
  | ShowParam string
  | SetMode Mode
  | SetLiveKey LiveKey
  | SetHistKey HistKey
  | SetChartType string

record result =
  reply :: string
  actions :: "DashboardAction list"

fun liveKeyText :: "LiveKey \<Rightarrow> string" where
  "liveKeyText L1h = ''1h''"
| "liveKeyText L12h = ''12h''"
| "liveKeyText L24h = ''24h''"

section \<open>The tables of the local interpreter\<close>

text \<open>\<open>PARAM_ALIASES\<close>, in the order the object literal lists its keys.\<close>

definition PARAM_ALIASES :: "(string \<times> string) list" where
  "PARAM_ALIASES =
    [(''tubing'', ''tubing''), (''tubing pressure'', ''tubing''), (''tub'', ''tubing''),
     (''tbg'', ''tubing''),
     (''a_ann'', ''a_ann''), (''a-ann'', ''a_ann''), (''a ann'', ''a_ann''),
     (''a-annulus'', ''a_ann''), (''a annulus'', ''a_ann''), (''aann'', ''a_ann''),
     (''b_ann'', ''b_ann''), (''b-ann'', ''b_ann''), (''b ann'', ''b_ann''),
     (''b-annulus'', ''b_ann''), (''b annulus'', ''b_ann''), (''bann'', ''b_ann''),
     (''flowline_p'', ''flowline_p''), (''flowline pressure'', ''flowline_p''),
     (''fl pressure'', ''flowline_p''), (''fl press'', ''flowline_p''),
     (''flowline p'', ''flowline_p''), (''flp'', ''flowline_p''),
     (''fl-line pressure'', ''flowline_p''),
     (''flowline_t'', ''flowline_t''), (''flowline temperature'', ''flowline_t''),
     (''fl temperature'', ''flowline_t''), (''fl temp'', ''flowline_t''),
     (''flowline t'', ''flowline_t''), (''flt'', ''flowline_t''),
     (''fl-line temperature'', ''flowline_t''), (''temperature'', ''flowline_t''),
     (''temp'', ''flowline_t'')]"

definition PRESSURE_PARAMS :: "string list" where
  "PRESSURE_PARAMS = [''tubing'', ''a_ann'', ''b_ann'', ''flowline_p'']"

definition PARAM_LABELS :: "(string \<times> string) list" where
  "PARAM_LABELS =
    [(''tubing'', ''Tubing Pressure''),
     (''a_ann'', ''A-Ann Pressure''),
     (''b_ann'', ''B-Ann Pressure''),
     (''flowline_p'', ''Flowline Pressure''),
     (''flowline_t'', ''Flowline Temperature'')]"

text \<open>\<open>PARAM_LABELS[pid] ?? pid\<close>.\<close>

definition labelOf :: "string \<Rightarrow> string" where
  "labelOf pid = (case map_of PARAM_LABELS pid of Some l \<Rightarrow> l | None \<Rightarrow> pid)"

section \<open>resolveParams\<close>

text \<open>
  \<open>Object.keys(PARAM_ALIASES).sort((a, b) => b.length - a.length)\<close>: the keys in
  insertion order, sorted by length, longest first. The sort of the language is stable,
  and so is \<^const>\<open>sort_key\<close>, taken here on the negated length.
\<close>

definition sortedAliases :: "string list" where
  "sortedAliases = sort_key (\<lambda>a. - int (length a)) (map fst PARAM_ALIASES)"

text \<open>
  The loop over the sorted aliases, with \<open>found\<close> as its accumulator. Every alias is a
  key of the table, so the lookup never misses; the \<open>None\<close> branch leaves \<open>found\<close> as
  it is.
\<close>

fun scanAliases :: "string \<Rightarrow> string list \<Rightarrow> string list \<Rightarrow> string list" where
  "scanAliases q [] found = found"
| "scanAliases q (alias # rest) found =
     (case map_of PARAM_ALIASES alias of
        None \<Rightarrow> scanAliases q rest found
      | Some pid \<Rightarrow>
          if includesStr q alias \<and> pid \<notin> set found
          then scanAliases q rest (found @ [pid])
          else scanAliases q rest found)"

definition resolveParams :: "string \<Rightarrow> string list" where
  "resolveParams q = scanAliases q sortedAliases []"

section \<open>The patterns of interpretQuery\<close>

definition reChartType :: re where
  \<comment> \<open>\<open>/\b(spline|area|column|bar|line)\b/\<close>\<close>
  "reChartType = seqs Bound
     [Cap (alts (Str ''spline'') [Str ''area'', Str ''column'', Str ''bar'', Str ''line'']),
      Bound]"

definition reVerb :: re where
  \<comment> \<open>\<open>/switch|change|use|set|convert|make/\<close>\<close>
  "reVerb = alts (Str ''switch'')
     [Str ''change'', Str ''use'', Str ''set'', Str ''convert'', Str ''make'']"

definition reChartNoun :: re where
  \<comment> \<open>\<open>/chart|graph|plot|type|view/\<close>\<close>
  "reChartNoun = alts (Str ''chart'') [Str ''graph'', Str ''plot'', Str ''type'', Str ''view'']"

definition reLive :: re where
  \<comment> \<open>\<open>/\b(live|real.?time|realtime|real time|now)\b/\<close>\<close>
  "reLive = seqs Bound
     [alts (Str ''live'')
        [seqs (Str ''real'') [Opt (One Dot), Str ''time''],
         Str ''realtime'', Str ''real time'', Str ''now''],
      Bound]"

definition reHistoryWord :: re where
  \<comment> \<open>\<open>/history/\<close>\<close>
  "reHistoryWord = Str ''history''"

definition hOur :: re where
  \<comment> \<open>\<open>h(our)?\<close>\<close>
  "hOur = Seq (Str ''h'') (Opt (Str ''our''))"

definition reLiveMatch :: re where
  \<comment> \<open>\<open>/\b(1\s*h(our)?|12\s*h(our)?|24\s*h(our)?)\b/\<close>\<close>
  "reLiveMatch = seqs Bound
     [alts (seqs (Str ''1'') [Star Space, hOur])
        [seqs (Str ''12'') [Star Space, hOur],
         seqs (Str ''24'') [Star Space, hOur]],
      Bound]"

definition reNumMatch :: re where
  \<comment> \<open>\<open>/\b(1|12|24)\s*h/\<close>\<close>
  "reNumMatch = seqs Bound
     [Cap (alts (Str ''1'') [Str ''12'', Str ''24'']), Star Space, Str ''h'']"

definition reLastN :: re where
  \<comment> \<open>\<open>/last\s+(1|12|24)/\<close>\<close>
  "reLastN = seqs (Str ''last'') [Plus Space, alts (Str ''1'') [Str ''12'', Str ''24'']]"

definition reHistory :: re where
  \<comment> \<open>\<open>/\b(histor|yesterday|week|month|past|last\s+\d)\b/\<close>\<close>
  "reHistory = seqs Bound
     [alts (Str ''histor'')
        [Str ''yesterday'', Str ''week'', Str ''month'', Str ''past'',
         seqs (Str ''last'') [Plus Space, One Digit]],
      Bound]"

definition reYesterday :: re where
  \<comment> \<open>\<open>/yesterday/\<close>\<close>
  "reYesterday = Str ''yesterday''"

definition reMonth :: re where
  \<comment> \<open>\<open>/1\s*month|30\s*day|monthly/\<close>\<close>
  "reMonth = alts (seqs (Str ''1'') [Star Space, Str ''month''])
     [seqs (Str ''30'') [Star Space, Str ''day''], Str ''monthly'']"

definition reWeek :: re where
  \<comment> \<open>\<open>/1\s*week|7\s*day|weekly/\<close>\<close>
  "reWeek = alts (seqs (Str ''1'') [Star Space, Str ''week''])
     [seqs (Str ''7'') [Star Space, Str ''day''], Str ''weekly'']"

definition re24h :: re where
  \<comment> \<open>\<open>/\b24\s*h(our)?s?\b/\<close>\<close>
  "re24h = seqs Bound [Str ''24'', Star Space, hOur, Opt (Str ''s''), Bound]"

definition re12h :: re where
  \<comment> \<open>\<open>/\b12\s*h(our)?s?\b/\<close>\<close>
  "re12h = seqs Bound [Str ''12'', Star Space, hOur, Opt (Str ''s''), Bound]"

definition re1h :: re where
  \<comment> \<open>\<open>/\b1\s*h(our)?\b/\<close>\<close>
  "re1h = seqs Bound [Str ''1'', Star Space, hOur, Bound]"

definition reShowAll :: re where
  \<comment> \<open>\<open>/\b(all|every(thing)?|show all|reset)\b/\<close>\<close>
  "reShowAll = seqs Bound
     [alts (Str ''all'')
        [Seq (Str ''every'') (Opt (Str ''thing'')), Str ''show all'', Str ''reset''],
      Bound]"

definition reHideRemove :: re where
  \<comment> \<open>\<open>/hide|remove/\<close>\<close>
  "reHideRemove = Alt (Str ''hide'') (Str ''remove'')"

definition rePressureOnly :: re where
  \<comment> \<open>\<open>/pressure.*(only|sensor|param)|only.*(pressure|press)|pressure\s+sensor/\<close>\<close>
  "rePressureOnly = alts
     (seqs (Str ''pressure'') [Star Dot, alts (Str ''only'') [Str ''sensor'', Str ''param'']])
     [seqs (Str ''only'') [Star Dot, Alt (Str ''pressure'') (Str ''press'')],
      seqs (Str ''pressure'') [Plus Space, Str ''sensor'']]"

definition reIsHide :: re where
  \<comment> \<open>\<open>/\b(hide|remove|turn off|disable|off)\b/\<close>\<close>
  "reIsHide = seqs Bound
     [alts (Str ''hide'') [Str ''remove'', Str ''turn off'', Str ''disable'', Str ''off''],
      Bound]"

definition reIsShow :: re where
  \<comment> \<open>\<open>/\b(show|display|enable|turn on|on)\b/\<close>\<close>
  "reIsShow = seqs Bound
     [alts (Str ''show'') [Str ''display'', Str ''enable'', Str ''turn on'', Str ''on''],
      Bound]"

definition reOnly :: re where
  \<comment> \<open>\<open>/only/\<close>\<close>
  "reOnly = Str ''only''"

section \<open>interpretQuery\<close>

text \<open>
  \<open>chartTypeMatch[1] === "bar" ? "column" : chartTypeMatch[1]\<close>. Group 1 takes part in
  every match of the chart-type pattern; the \<open>None\<close> case is what a template would print
  for a group that did not.
\<close>

definition chartTypeOf :: "string option \<Rightarrow> string" where
  "chartTypeOf g =
     (case g of None \<Rightarrow> ''undefined'' | Some w \<Rightarrow> if w = ''bar'' then ''column'' else w)"

definition keyMap :: "(string \<times> LiveKey) list" where
  "keyMap = [(''1'', L1h), (''12'', L12h), (''24'', L24h)]"

text \<open>\<open>numMatch ? (keyMap[numMatch[1]] ?? "1h") : "1h"\<close>.\<close>

definition liveKeyOf :: "string option option \<Rightarrow> LiveKey" where
  "liveKeyOf numMatch =
     (case numMatch of
        None \<Rightarrow> L1h
      | Some None \<Rightarrow> L1h
      | Some (Some k) \<Rightarrow> (case map_of keyMap k of None \<Rightarrow> L1h | Some lk \<Rightarrow> lk))"

text \<open>The dash of the live-window reply is U+2014, written as its three UTF-8 bytes.\<close>

definition emDash :: string where
  "emDash = [CHR 0xE2, CHR 0x80, CHR 0x94]"

text \<open>
  The body of \<open>interpretQuery\<close> is a run of blocks that each either return or fall
  through to the next. Each block is a function to \<^typ>\<open>result option\<close>, named after
  its comment in the source: \<open>Some\<close> is a return, \<open>None\<close> falls through. The local
  \<open>actions\<close> array is empty until the returning block pushes onto it.
\<close>

definition chartTypeFirstPass :: "string \<Rightarrow> string option option \<Rightarrow> result option" where
  "chartTypeFirstPass q chartTypeMatch =
     (case chartTypeMatch of
        None \<Rightarrow> None
      | Some g \<Rightarrow>
          (let ct = chartTypeOf g in
           if test reVerb q \<or> test reChartNoun q
           then Some \<lparr>reply = ''Switched to '' @ ct @ '' chart type.'',
                      actions = [SetChartType ct]\<rparr>
           else None))"

definition liveMode :: "string \<Rightarrow> result option" where
  "liveMode q =
     (if test reLive q \<and> \<not> test reHistoryWord q then
        (let liveMatch = test reLiveMatch q;
             numMatch = exec reNumMatch q;
             lk = liveKeyOf numMatch
         in if liveMatch \<or> test reLastN q
            then Some \<lparr>reply = ''Switched to live mode '' @ emDash @ '' last '' @
                                liveKeyText lk @ ''.'',
                       actions = [SetLiveKey lk]\<rparr>
            else Some \<lparr>reply = ''Switched to live (real-time) mode.'',
                       actions = [SetMode Realtime]\<rparr>)
      else None)"

definition historyWindow :: "string \<Rightarrow> result option" where
  \<open>historyWindow q =
     (if test reHistory q then
        (if test reYesterday q
         then Some \<lparr>reply = ''Showing yesterday's data.'',
                    actions = [SetHistKey Yesterday]\<rparr>
         else if test reMonth q
         then Some \<lparr>reply = ''Showing last 1-month history.'',
                    actions = [SetHistKey Month1]\<rparr>
         else if test reWeek q
         then Some \<lparr>reply = ''Showing last 1-week history.'',
                    actions = [SetHistKey Week1]\<rparr>
         else Some \<lparr>reply = ''Switched to history mode.'',
                    actions = [SetMode History]\<rparr>)
      else None)\<close>

definition liveTimeWindow :: "string \<Rightarrow> result option" where
  "liveTimeWindow q =
     (if test re24h q
      then Some \<lparr>reply = ''Showing last 24 hours of live data.'',
                 actions = [SetLiveKey L24h]\<rparr>
      else if test re12h q
      then Some \<lparr>reply = ''Showing last 12 hours of live data.'',
                 actions = [SetLiveKey L12h]\<rparr>
      else if test re1h q
      then Some \<lparr>reply = ''Showing last 1 hour of live data.'',
                 actions = [SetLiveKey L1h]\<rparr>
      else None)"

definition showAll :: "string \<Rightarrow> result option" where
  "showAll q =
     (if test reShowAll q \<and> \<not> test reHideRemove q
      then Some \<lparr>reply = ''All parameters are now visible.'', actions = [ShowAllParams]\<rparr>
      else None)"

definition showOnlyPressure :: "string \<Rightarrow> result option" where
  "showOnlyPressure q =
     (if test rePressureOnly q \<or> q = ''pressure'' \<or> q = ''pressures''
      then Some \<lparr>reply = ''Showing only the 4 pressure parameters.'',
                 actions = [ShowOnlyParams PRESSURE_PARAMS]\<rparr>
      else None)"

definition hideShowParam :: "string \<Rightarrow> result option" where
  "hideShowParam q =
     (let isHide = test reIsHide q;
          isShow = test reIsShow q;
          resolved = resolveParams q;
          names = join '', '' (map labelOf resolved)
      in if resolved \<noteq> [] then
           (if isHide \<and> \<not> isShow
            then Some \<lparr>reply = ''Hidden: '' @ names @ ''.'',
                       actions = map HideParam resolved\<rparr>
            else if isShow \<or> \<not> isHide then
              (if test reOnly q
               then Some \<lparr>reply = ''Showing only: '' @ names @ ''.'',
                          actions = [ShowOnlyParams resolved]\<rparr>
               else Some \<lparr>reply = ''Showing: '' @ names @ ''.'',
                          actions = map ShowParam resolved\<rparr>)
            else None)
         else None)"

definition chartTypeSecondPass :: "string option option \<Rightarrow> result option" where
  "chartTypeSecondPass chartTypeMatch =
     (case chartTypeMatch of
        None \<Rightarrow> None
      | Some g \<Rightarrow>
          (let ct = chartTypeOf g in
           Some \<lparr>reply = ''Switched to '' @ ct @ '' chart.'', actions = [SetChartType ct]\<rparr>))"

definition fallbackReply :: string where
  \<open>fallbackReply =
     ''I didn't quite understand that. Try asking things like "Show only pressure sensors", '' @
     ''"Switch to 1-week history", or "Use spline chart".''\<close>

definition fallback :: result where
  "fallback = \<lparr>reply = fallbackReply, actions = []\<rparr>"

definition interpretQuery :: "string \<Rightarrow> result" where
  "interpretQuery raw =
     (let q = trim (toLowerCase raw);
          chartTypeMatch = exec reChartType q
      in case chartTypeFirstPass q chartTypeMatch of Some r \<Rightarrow> r | None \<Rightarrow>
        (case liveMode q of Some r \<Rightarrow> r | None \<Rightarrow>
        (case historyWindow q of Some r \<Rightarrow> r | None \<Rightarrow>
        (case liveTimeWindow q of Some r \<Rightarrow> r | None \<Rightarrow>
        (case showAll q of Some r \<Rightarrow> r | None \<Rightarrow>
        (case showOnlyPressure q of Some r \<Rightarrow> r | None \<Rightarrow>
        (case hideShowParam q of Some r \<Rightarrow> r | None \<Rightarrow>
        (case chartTypeSecondPass chartTypeMatch of Some r \<Rightarrow> r | None \<Rightarrow>
         fallback))))))))"

section \<open>callOpenAI\<close>

text \<open>
  What the one remote request of a call comes to: the request itself fails; the response
  is not ok, with its status and the \<open>error.code\<close> of its body, if it has one; or the
  response is ok, and its content parses to a result or reading it throws. The remote
  service is a parameter of the model.
\<close>

datatype fetchOutcome =
    NetworkFailure
  | NotOk nat "string option"
  | OkContent "result option"

text \<open>\<open>!apiKey || apiKey.startsWith("sk-...")\<close>, on the trimmed environment value.\<close>

definition notConfigured :: "string option \<Rightarrow> bool" where
  "notConfigured env =
     (case env of
        None \<Rightarrow> True
      | Some k \<Rightarrow> trim k = [] \<or> startsWith (trim k) ''sk-...'')"

text \<open>
  The second component lists the remote requests the call has issued, as pairs of key
  and message. An error thrown inside the \<open>try\<close> block is caught by its \<open>catch\<close>, which
  answers with the local interpreter.
\<close>

definition callOpenAI ::
  "string option \<Rightarrow> (string \<Rightarrow> string \<Rightarrow> fetchOutcome) \<Rightarrow> string \<Rightarrow> result \<times> (string \<times> string) list"
where
  "callOpenAI env fetch userMessage =
     (if notConfigured env then (interpretQuery userMessage, [])
      else
        (let apiKey = (case env of None \<Rightarrow> [] | Some k \<Rightarrow> trim k);
             answer =
               (case fetch apiKey userMessage of
                  NetworkFailure \<Rightarrow> interpretQuery userMessage
                | NotOk status errCode \<Rightarrow>
                    if status = 429 \<or> errCode = Some ''insufficient_quota''
                    then interpretQuery userMessage
                    else interpretQuery userMessage
                | OkContent None \<Rightarrow> interpretQuery userMessage
                | OkContent (Some r) \<Rightarrow> r)
         in (answer, [(apiKey, userMessage)])))"

section \<open>The action consumer: onActions\<close>

datatype HistoryFilterKey = FYesterday | FWeek1 | FMonth1 | FCustom

text \<open>A \<open>HistKey\<close> is a \<open>HistoryFilterKey\<close>: the same three literals.\<close>

fun histFilterKey :: "HistKey \<Rightarrow> HistoryFilterKey" where
  "histFilterKey Yesterday = FYesterday"
| "histFilterKey Week1 = FWeek1"
| "histFilterKey Month1 = FMonth1"

text \<open>The state variables of the chart component that the consumer writes.\<close>

record viewState =
  mode :: Mode
  liveKey :: LiveKey
  histKey :: HistoryFilterKey
  chartType :: string
  disabledParams :: "string set"

text \<open>\<open>PARAMS.map(p => p.id)\<close>.\<close>

definition paramIds :: "string list" where
  "paramIds = [''tubing'', ''a_ann'', ''b_ann'', ''flowline_p'', ''flowline_t'']"

fun applyAction :: "DashboardAction \<Rightarrow> viewState \<Rightarrow> viewState" where
  "applyAction (ShowOnlyParams ps) s =
     s\<lparr>disabledParams := set (filter (\<lambda>pid. pid \<notin> set ps) paramIds)\<rparr>"
| "applyAction ShowAllParams s = s\<lparr>disabledParams := {}\<rparr>"
| "applyAction (HideParam p) s = s\<lparr>disabledParams := insert p (disabledParams s)\<rparr>"
| "applyAction (ShowParam p) s = s\<lparr>disabledParams := disabledParams s - {p}\<rparr>"
| "applyAction (SetMode m) s = s\<lparr>mode := m\<rparr>"
| "applyAction (SetLiveKey k) s = s\<lparr>mode := Realtime, liveKey := k\<rparr>"
| "applyAction (SetHistKey k) s = s\<lparr>mode := History, histKey := histFilterKey k\<rparr>"
| "applyAction (SetChartType c) s = s\<lparr>chartType := c\<rparr>"

text \<open>\<open>actions.forEach(...)\<close>: the state updates are queued and applied in order.\<close>

definition onActions :: "DashboardAction list \<Rightarrow> viewState \<Rightarrow> viewState" where
  "onActions as s = fold applyAction as s"

section \<open>Helper facts: group 1 takes part in every match of the capturing patterns\<close>

lemma rmatch_Cap_captures: "x \<in> set (rmatch (Cap a) st) \<Longrightarrow> snd (snd x) \<noteq> None"
  by (cases st) auto

lemma rmatch_Bound_keeps: "x \<in> set (rmatch Bound st) \<Longrightarrow> snd (snd x) = snd (snd st)"
  by (cases st) (auto split: if_splits)

lemma rmatch_Str_keeps: "x \<in> set (rmatch (Str w) st) \<Longrightarrow> snd (snd x) = snd (snd st)"
  by (cases st) auto

lemma rmatch_Star_keeps: "x \<in> set (rmatch (Star k) st) \<Longrightarrow> snd (snd x) = snd (snd st)"
  by (cases st) auto

lemma search_captures:
  assumes "\<And>st x. x \<in> set (rmatch r st) \<Longrightarrow> snd (snd x) \<noteq> None"
  shows "search r p s \<noteq> Some None"
proof (induction s arbitrary: p)
  case Nil
  show ?case
  proof (cases "rmatch r (p, [], None)")
    case Nil
    then show ?thesis by simp
  next
    case (Cons x xs)
    then have "x \<in> set (rmatch r (p, [], None))" by simp
    from assms [OF this] Cons show ?thesis by (cases x) auto
  qed
next
  case (Cons c cs)
  show ?case
  proof (cases "rmatch r (p, c # cs, None)")
    case Nil
    then show ?thesis using Cons.IH by simp
  next
    case (Cons x xs)
    then have "x \<in> set (rmatch r (p, c # cs, None))" by simp
    from assms [OF this] Cons show ?thesis by (cases x) auto
  qed
qed

lemma reChartType_captures: "exec reChartType q \<noteq> Some None"
  unfolding exec_def
proof (rule search_captures)
  fix st x
  assume "x \<in> set (rmatch reChartType st)"
  then obtain a b where a: "a \<in> set (rmatch Bound st)"
    and b: "b \<in> set (rmatch (Cap (alts (Str ''spline'') [Str ''area'', Str ''column'', Str ''bar'', Str ''line''])) a)"
    and x: "x \<in> set (rmatch Bound b)"
    by (auto simp: reChartType_def)
  from rmatch_Cap_captures [OF b] rmatch_Bound_keeps [OF x] show "snd (snd x) \<noteq> None"
    by simp
qed

lemma reNumMatch_captures: "exec reNumMatch q \<noteq> Some None"
  unfolding exec_def
proof (rule search_captures)
  fix st x
  assume "x \<in> set (rmatch reNumMatch st)"
  then obtain a b c where a: "a \<in> set (rmatch Bound st)"
    and b: "b \<in> set (rmatch (Cap (alts (Str ''1'') [Str ''12'', Str ''24''])) a)"
    and c: "c \<in> set (rmatch (Star Space) b)"
    and x: "x \<in> set (rmatch (Str ''h'') c)"
    by (auto simp: reNumMatch_def)
  from rmatch_Cap_captures [OF b] rmatch_Star_keeps [OF c] rmatch_Str_keeps [OF x]
  show "snd (snd x) \<noteq> None"
    by simp
qed

section \<open>Helper facts: every returning block has a reply\<close>

lemma chartTypeFirstPass_reply: "chartTypeFirstPass q m = Some r \<Longrightarrow> reply r \<noteq> []"
  by (auto simp: chartTypeFirstPass_def Let_def split: option.splits if_splits)

lemma liveMode_reply: "liveMode q = Some r \<Longrightarrow> reply r \<noteq> []"
  by (auto simp: liveMode_def Let_def split: if_splits)

lemma historyWindow_reply: "historyWindow q = Some r \<Longrightarrow> reply r \<noteq> []"
  by (auto simp: historyWindow_def split: if_splits)

lemma liveTimeWindow_reply: "liveTimeWindow q = Some r \<Longrightarrow> reply r \<noteq> []"
  by (auto simp: liveTimeWindow_def split: if_splits)

lemma showAll_reply: "showAll q = Some r \<Longrightarrow> reply r \<noteq> []"
  by (auto simp: showAll_def split: if_splits)

lemma showOnlyPressure_reply: "showOnlyPressure q = Some r \<Longrightarrow> reply r \<noteq> []"
  by (auto simp: showOnlyPressure_def split: if_splits)

lemma hideShowParam_reply: "hideShowParam q = Some r \<Longrightarrow> reply r \<noteq> []"
  by (auto simp: hideShowParam_def Let_def split: if_splits)

lemma chartTypeSecondPass_reply: "chartTypeSecondPass m = Some r \<Longrightarrow> reply r \<noteq> []"
  by (auto simp: chartTypeSecondPass_def Let_def split: option.splits)

lemma fallback_reply: "reply fallback \<noteq> []"
  by (simp add: fallback_def fallbackReply_def)

section \<open>Helper facts: the blocks that a query without vocabulary falls through\<close>

lemma chartTypeFirstPass_None: "chartTypeFirstPass q None = None"
  by (simp add: chartTypeFirstPass_def)








section \<open>Helper facts: the lower-cased query \<open>pressure\<close>\<close>

lemma pressure_falls_through:
  "exec reChartType ''pressure'' = None"
  "liveMode ''pressure'' = None"
  "historyWindow ''pressure'' = None"
  "liveTimeWindow ''pressure'' = None"
  "showAll ''pressure'' = None"
  by code_simp+

section \<open>Helper facts: the history block is reached through its other tokens\<close>

lemma interpretQuery_past_data:
  "interpretQuery ''show past data'' =
     \<lparr>reply = ''Switched to history mode.'', actions = [SetMode History]\<rparr>"
  by code_simp

section \<open>The claims\<close>

text \<open>
  C1. The query \<open>switch to history mode\<close> is claimed to give exactly one \<open>setMode\<close>
  action with mode history. The history block is entered on the pattern
  \<open>/\b(histor|yesterday|week|month|past|last\s+\d)\b/\<close>; in the word \<open>history\<close> the stem
  \<open>histor\<close> is followed by the word character \<open>y\<close>, so the closing \<open>\b\<close> fails and the
  block is never entered. No other block recognises the query, and the interpreter
  answers with the guidance reply and no action.
\<close>

theorem interpretQuery_history_mode_unrecognised:
  "interpretQuery ''switch to history mode'' = fallback \<and>
   actions (interpretQuery ''switch to history mode'') \<noteq> [SetMode History]"
proof -
  have "interpretQuery ''switch to history mode'' = fallback"
    by code_simp
  then show ?thesis
    by (simp add: fallback_def)
qed

text \<open>
  C2, as stated: resolving \<open>flowline pressure and flowline temperature\<close> gives
  \<open>flowline_p\<close> first and \<open>flowline_t\<close> second. It does not: the scan goes by alias
  length, and \<open>flowline temperature\<close> (20 characters) comes before
  \<open>flowline pressure\<close> (17).
\<close>

theorem resolveParams_flowline_order_counterexample:
  "resolveParams ''flowline pressure and flowline temperature'' \<noteq> [''flowline_p'', ''flowline_t'']"
  by code_simp

text \<open>
  C2, amended: the resolver yields exactly the two identifiers, without duplicates, with
  \<open>flowline_t\<close> first and \<open>flowline_p\<close> second.
\<close>

theorem resolveParams_flowline_pair:
  "resolveParams ''flowline pressure and flowline temperature'' = [''flowline_t'', ''flowline_p'']"
  by code_simp

text \<open>
  C3. Whenever the lower-cased, trimmed input is \<open>pressure\<close>, the interpreter returns
  exactly one \<open>showOnlyParams\<close> action over the four pressure identifiers \<open>tubing\<close>,
  \<open>a_ann\<close>, \<open>b_ann\<close>, \<open>flowline_p\<close>, and \<open>flowline_t\<close> is not among them.
\<close>

theorem interpretQuery_pressure:
  assumes "trim (toLowerCase raw) = ''pressure''"
  shows "actions (interpretQuery raw) = [ShowOnlyParams PRESSURE_PARAMS] \<and>
         PRESSURE_PARAMS = [''tubing'', ''a_ann'', ''b_ann'', ''flowline_p''] \<and>
         ''flowline_t'' \<notin> set PRESSURE_PARAMS"
  using assms
  by (simp add: interpretQuery_def pressure_falls_through chartTypeFirstPass_None
        showOnlyPressure_def PRESSURE_PARAMS_def)

theorem interpretQuery_pressure_witness:
  "trim (toLowerCase '' PresSURE  '') = ''pressure'' \<and>
   actions (interpretQuery '' PresSURE  '') =
     [ShowOnlyParams [''tubing'', ''a_ann'', ''b_ann'', ''flowline_p'']]"
proof -
  have h: "trim (toLowerCase '' PresSURE  '') = ''pressure''"
    by code_simp
  from interpretQuery_pressure [OF h] h show ?thesis
    by simp
qed

text \<open>
  C4. The query \<open>hide b-annulus and tubing\<close> gives the two actions \<open>hideParam b_ann\<close>
  and \<open>hideParam tubing\<close>, in that order, and a reply that names both labels joined by
  a comma.
\<close>

theorem interpretQuery_multi_hide:
  "interpretQuery ''hide b-annulus and tubing'' =
     \<lparr>reply = ''Hidden: B-Ann Pressure, Tubing Pressure.'',
      actions = [HideParam ''b_ann'', HideParam ''tubing'']\<rparr>"
  by code_simp



text \<open>
  C7. With no key, or a key that is empty or begins with the placeholder prefix
  \<open>sk-...\<close> once trimmed, the delegate answers with the local interpreter's result on
  the same input and issues no remote request, whatever the remote service would say.
\<close>

theorem callOpenAI_not_configured:
  assumes "notConfigured env"
  shows "callOpenAI env fetch userMessage = (interpretQuery userMessage, [])"
  using assms by (simp add: callOpenAI_def)

theorem callOpenAI_not_configured_witness:
  "notConfigured (Some '' sk-...your-key'') \<and> notConfigured None \<and>
   callOpenAI (Some '' sk-...your-key'') (\<lambda>k m. OkContent (Some \<lparr>reply = ''remote'', actions = [ShowAllParams]\<rparr>))
       ''xyzzy'' = (interpretQuery ''xyzzy'', [])"
proof -
  have h: "notConfigured (Some '' sk-...your-key'')"
    by code_simp
  have n: "notConfigured None"
    by (simp add: notConfigured_def)
  from callOpenAI_not_configured [OF h] h n show ?thesis
    by simp
qed

text \<open>
  C8. The interpreter returns a result on every input, and the reply of that result is
  never empty. Every block and the final fall-back yield a result; nothing in the body
  can raise.
\<close>

theorem interpretQuery_reply_nonempty:
  "\<exists>r. interpretQuery raw = r \<and> reply r \<noteq> []"
  unfolding interpretQuery_def Let_def
  by (simp add: chartTypeFirstPass_reply liveMode_reply historyWindow_reply liveTimeWindow_reply
        showAll_reply showOnlyPressure_reply hideShowParam_reply chartTypeSecondPass_reply
        fallback_reply split: option.splits)

text \<open>
  C9, as stated: a \<open>setLiveKey\<close> action leaves the mode as it was. It does not: the
  consumer also switches the mode to realtime, so a state in history mode changes mode.
\<close>

theorem onActions_setLiveKey_mode_counterexample:
  "mode (onActions [SetLiveKey L12h]
           \<lparr>mode = History, liveKey = L1h, histKey = FYesterday, chartType = ''line'',
            disabledParams = {}\<rparr>)
   \<noteq> mode \<lparr>mode = History, liveKey = L1h, histKey = FYesterday, chartType = ''line'',
            disabledParams = {}\<rparr>"
  by (simp add: onActions_def)

text \<open>
  C9, amended: a \<open>setLiveKey\<close> action overwrites the live window with the action's key and
  sets the mode to realtime; the history range, the chart type and the hidden set are
  unchanged. Symmetrically, a \<open>setHistKey\<close> action overwrites the history range with the
  action's key and sets the mode to history; the live window, the chart type and the
  hidden set are unchanged.
\<close>

theorem onActions_setKey_frame:
  "liveKey (onActions [SetLiveKey k] s) = k \<and>
   mode (onActions [SetLiveKey k] s) = Realtime \<and>
   histKey (onActions [SetLiveKey k] s) = histKey s \<and>
   chartType (onActions [SetLiveKey k] s) = chartType s \<and>
   disabledParams (onActions [SetLiveKey k] s) = disabledParams s \<and>
   histKey (onActions [SetHistKey h] s) = histFilterKey h \<and>
   mode (onActions [SetHistKey h] s) = History \<and>
   liveKey (onActions [SetHistKey h] s) = liveKey s \<and>
   chartType (onActions [SetHistKey h] s) = chartType s \<and>
   disabledParams (onActions [SetHistKey h] s) = disabledParams s"
  by (simp add: onActions_def)

text \<open>
  C10, as stated: a query that no earlier block answers, that resolves at least one
  parameter and that contains no hide token, no show token and not the word \<open>only\<close>,
  gets one \<open>showParam\<close> action per resolved parameter. It does not when \<open>only\<close> sits
  inside a longer word: in \<open>tubing commonly\<close> the word \<open>only\<close> does not occur
  (\<open>/\bonly\b/\<close> has no match), every other condition holds, and the interpreter
  returns one \<open>showOnlyParams\<close> action, because the source tests \<open>/only/\<close> by
  containment.
\<close>

theorem interpretQuery_bare_param_word_only_counterexample:
  "''tubing commonly'' = trim (toLowerCase ''tubing commonly'') \<and>
   chartTypeFirstPass ''tubing commonly'' (exec reChartType ''tubing commonly'') = None \<and>
   liveMode ''tubing commonly'' = None \<and>
   historyWindow ''tubing commonly'' = None \<and>
   liveTimeWindow ''tubing commonly'' = None \<and>
   showAll ''tubing commonly'' = None \<and>
   showOnlyPressure ''tubing commonly'' = None \<and>
   resolveParams ''tubing commonly'' = [''tubing''] \<and>
   \<not> test reIsHide ''tubing commonly'' \<and>
   \<not> test reIsShow ''tubing commonly'' \<and>
   \<not> test (seqs Bound [Str ''only'', Bound]) ''tubing commonly'' \<and>
   actions (interpretQuery ''tubing commonly'') = [ShowOnlyParams [''tubing'']] \<and>
   actions (interpretQuery ''tubing commonly'') \<noteq>
     map ShowParam (resolveParams ''tubing commonly'')"
proof -
  have r: "resolveParams ''tubing commonly'' = [''tubing'']"
    by code_simp
  have a: "actions (interpretQuery ''tubing commonly'') = [ShowOnlyParams [''tubing'']]"
    by code_simp
  have d: "actions (interpretQuery ''tubing commonly'') \<noteq>
      map ShowParam (resolveParams ''tubing commonly'')"
    by (simp add: a r)
  have "''tubing commonly'' = trim (toLowerCase ''tubing commonly'')"
    "chartTypeFirstPass ''tubing commonly'' (exec reChartType ''tubing commonly'') = None"
    "liveMode ''tubing commonly'' = None" "historyWindow ''tubing commonly'' = None"
    "liveTimeWindow ''tubing commonly'' = None" "showAll ''tubing commonly'' = None"
    "showOnlyPressure ''tubing commonly'' = None"
    "\<not> test reIsHide ''tubing commonly''" "\<not> test reIsShow ''tubing commonly''"
    "\<not> test (seqs Bound [Str ''only'', Bound]) ''tubing commonly''"
    by code_simp+
  with r a d show ?thesis
    by blast
qed

text \<open>
  C10, amended: a query that no earlier block answers, that resolves at least one
  parameter and that contains no hide token, no show token and nowhere the text
  \<open>only\<close> (not even inside a longer word), gets one \<open>showParam\<close> action per resolved
  parameter, in resolver order.
\<close>

theorem interpretQuery_bare_param_shows:
  assumes "q = trim (toLowerCase raw)"
    and "chartTypeFirstPass q (exec reChartType q) = None"
    and "liveMode q = None"
    and "historyWindow q = None"
    and "liveTimeWindow q = None"
    and "showAll q = None"
    and "showOnlyPressure q = None"
    and "resolveParams q \<noteq> []"
    and "\<not> test reIsHide q"
    and "\<not> test reIsShow q"
    and "\<not> test reOnly q"
  shows "actions (interpretQuery raw) = map ShowParam (resolveParams q)"
  using assms
  by (simp add: interpretQuery_def Let_def hideShowParam_def)

theorem interpretQuery_bare_param_shows_witness:
  "resolveParams ''tubing and temp'' = [''tubing'', ''flowline_t''] \<and>
   actions (interpretQuery ''Tubing and temp'') = [ShowParam ''tubing'', ShowParam ''flowline_t'']"
proof -
  have q: "''tubing and temp'' = trim (toLowerCase ''Tubing and temp'')"
    by code_simp
  have r: "resolveParams ''tubing and temp'' = [''tubing'', ''flowline_t'']"
    by code_simp
  have n: "resolveParams ''tubing and temp'' \<noteq> []"
    by (simp add: r)
  have "chartTypeFirstPass ''tubing and temp'' (exec reChartType ''tubing and temp'') = None"
    "liveMode ''tubing and temp'' = None" "historyWindow ''tubing and temp'' = None"
    "liveTimeWindow ''tubing and temp'' = None" "showAll ''tubing and temp'' = None"
    "showOnlyPressure ''tubing and temp'' = None"
    "\<not> test reIsHide ''tubing and temp''" "\<not> test reIsShow ''tubing and temp''"
    "\<not> test reOnly ''tubing and temp''"
    by code_simp+
  from interpretQuery_bare_param_shows [OF q this(1-6) n this(7-9)] r show ?thesis
    by simp
qed

end
